theory Spec2Isabelle
  imports Main "HOL-Library.Word"
begin

unbundle bit_operations_syntax

section \<open>The data of linuxspi.c\<close>

text \<open>
  The driver \<^verbatim>\<open>src/avrdude/linuxspi.c\<close> talks to an AVR part through the spidev
  device node. Its functions return C \<^verbatim>\<open>int\<close> status codes (modelled as \<open>int\<close>; no
  arithmetic is done on them), write diagnostics to \<^verbatim>\<open>stderr\<close> and call
  \<^verbatim>\<open>open\<close>/\<^verbatim>\<open>ioctl\<close>/\<^verbatim>\<open>close\<close>, \<^verbatim>\<open>usleep\<close> and \<^verbatim>\<open>exit\<close>. The effects are
  recorded in an explicit \<open>world\<close> that every function takes and returns.
\<close>

type_synonym byte = "8 word"

text \<open>
  The \<^verbatim>\<open>fprintf(stderr, ...)\<close> calls of the file, one constructor per format string
  (\<^verbatim>\<open>progname\<close> is a global of another file and is left out; the other arguments
  are kept):
  \<^item> \<open>UnableToOpenPort port\<close>: "error: Unable to open SPI port %s" (line 101);
  \<^item> \<open>UnableToSendMessage\<close>: "error: Unable to send SPI message" (line 119);
  \<^item> \<open>NoPortSpecified\<close>: "error: No port specified. ..." (line 145);
  \<^item> \<open>NoTPISupport type\<close>: "error: Programmer %s does not support TPI" (line 182);
  \<^item> \<open>DeviceNotResponding\<close>: "error: AVR device not responding" (line 199);
  \<^item> \<open>EnableNotDefined desc\<close>: "error: program enable instruction not defined for
    part %s" (line 218);
  \<^item> \<open>EraseNotDefined desc\<close>: "error: chip erase instruction not defined for part
    %s" (line 239).
\<close>

datatype diag =
    UnableToOpenPort string
  | UnableToSendMessage
  | NoPortSpecified
  | NoTPISupport string
  | DeviceNotResponding
  | EnableNotDefined string
  | EraseNotDefined string

text \<open>
  What the program does to its environment, in order: \<open>Duplex port tx len\<close> is one call
  of \<^verbatim>\<open>linuxspi_spi_duplex\<close> (the attempt to open \<open>port\<close> and exchange \<open>len\<close> bytes
  of \<open>tx\<close>), \<open>Usleep d\<close> a call of \<^verbatim>\<open>usleep(d)\<close>, \<open>Stderr m\<close> a diagnostic.
\<close>

datatype event =
    Duplex string "byte list" int
  | Usleep nat
  | Stderr diag

text \<open>
  What the operating system answers to one call of \<^verbatim>\<open>linuxspi_spi_duplex\<close>:
  \<open>OpenFailed\<close> when \<^verbatim>\<open>open(pgm->port, O_RDWR)\<close> returns a negative descriptor;
  \<open>Ioctl ret bs\<close> when the node opens and \<^verbatim>\<open>ioctl(fd, SPI_IOC_MESSAGE(1), &tr)\<close>
  returns \<open>ret\<close> after storing the bytes \<open>bs\<close> at the start of the receive buffer
  (\<open>bs = []\<close> when it stores nothing).
\<close>

datatype spi_outcome =
    OpenFailed
  | Ioctl int "byte list"

text \<open>
  The world: \<open>spidev n\<close> is the answer to the \<open>n\<close>-th duplex call (counted from 0),
  \<open>uninit n j\<close> is the indeterminate byte found at index \<open>j\<close> of a local array that is
  declared without initialiser once \<open>n\<close> duplex calls have been made
  (\<^verbatim>\<open>unsigned char res[4];\<close>), and \<open>trace\<close> is the list of events so far.
\<close>

record world =
  spidev :: "nat \<Rightarrow> spi_outcome"
  uninit :: "nat \<Rightarrow> nat \<Rightarrow> byte"
  trace :: "event list"

text \<open>
  Modelled from the spec: the type \<^verbatim>\<open>OPCODE\<close> and the function \<^verbatim>\<open>avr_set_bits\<close>
  are declared in headers and defined in files that are not under \<^verbatim>\<open>src/\<close>. The
  spec calls an opcode template "a per-part, per-operation description of which bits
  of the 4-byte frame encode that operation" and says that building a command
  "applies the template's bit-set operations" to the frame. A template is therefore a
  list of bit-set operations, \<open>SetBit j b v\<close> giving bit \<open>b\<close> of byte \<open>j\<close> of the frame
  the value \<open>v\<close>; \<open>avr_set_bits\<close> applies them in order. An operation that names a
  byte or a bit outside the frame changes nothing.
\<close>

datatype bitop = SetBit nat nat bool

type_synonym opcode = "bitop list"

fun apply_bitop :: "bitop \<Rightarrow> byte list \<Rightarrow> byte list" where
  "apply_bitop (SetBit j b v) cmd =
     (if j < length cmd
      then cmd[j := (if v then (cmd ! j) OR push_bit b 1 else (cmd ! j) AND NOT (push_bit b 1))]
      else cmd)"

definition avr_set_bits :: "opcode \<Rightarrow> byte list \<Rightarrow> byte list" where
  "avr_set_bits t cmd = fold apply_bitop t cmd"

text \<open>
  The operations that index \<^verbatim>\<open>p->op[]\<close>; the file uses \<^verbatim>\<open>AVR_OP_PGM_ENABLE\<close> and
  \<^verbatim>\<open>AVR_OP_CHIP_ERASE\<close>, the others are gathered in \<open>AVR_OP_OTHER\<close>.
\<close>

datatype avr_op = AVR_OP_PGM_ENABLE | AVR_OP_CHIP_ERASE | AVR_OP_OTHER nat

text \<open>
  The fields of \<^verbatim>\<open>AVRPART\<close> that the file reads. \<open>op p o = None\<close> is the null
  pointer \<^verbatim>\<open>p->op[o] == NULL\<close>. \<open>chip_erase_delay\<close> is in microseconds.
\<close>

record avrpart =
  desc :: string
  flags :: "32 word"
  op :: "avr_op \<Rightarrow> opcode option"
  chip_erase_delay :: nat

text \<open>
  The fields of \<^verbatim>\<open>PROGRAMMER\<close> that the file reads or writes. The function
  pointers \<^verbatim>\<open>pgm->cmd\<close>, \<^verbatim>\<open>pgm->program_enable\<close> and \<^verbatim>\<open>pgm->initialize\<close> are the
  functions of this file, as \<^verbatim>\<open>linuxspi_initpgm\<close> sets them, and calls through them
  are modelled as direct calls.
\<close>

record programmer =
  port :: string
  pgm_type :: string

section \<open>The functions of linuxspi.c\<close>

definition emit :: "world \<Rightarrow> diag \<Rightarrow> world" where
  "emit w m = w\<lparr>trace := trace w @ [Stderr m]\<rparr>"

fun is_duplex :: "event \<Rightarrow> bool" where
  "is_duplex (Duplex prt tx len) = True"
| "is_duplex (Usleep d) = False"
| "is_duplex (Stderr m) = False"

text \<open>The number of duplex calls made so far.\<close>

definition xfers :: "world \<Rightarrow> nat" where
  "xfers w = length (filter is_duplex (trace w))"

text \<open>
  The receive buffer \<open>rx\<close> after the driver has stored the bytes \<open>bs\<close> at its start:
  the buffer keeps its length, and the bytes beyond \<open>bs\<close> keep their value.
\<close>

definition store :: "byte list \<Rightarrow> byte list \<Rightarrow> byte list" where
  "store bs rx = take (length rx) bs @ drop (length bs) rx"

text \<open>
  \<^verbatim>\<open>linuxspi_spi_duplex\<close> (lines 96-124) returns the status and the receive buffer:
  \<open>-1\<close> with the buffer untouched when the node does not open, \<open>-1\<close> when
  \<^verbatim>\<open>ioctl\<close> returns something else than \<open>len\<close>, and \<open>ret\<close> otherwise.
\<close>

definition linuxspi_spi_duplex ::
  "world \<Rightarrow> programmer \<Rightarrow> byte list \<Rightarrow> byte list \<Rightarrow> int \<Rightarrow> int \<times> byte list \<times> world" where
  "linuxspi_spi_duplex w pgm tx rx len =
     (let w1 = w\<lparr>trace := trace w @ [Duplex (port pgm) tx len]\<rparr> in
      case spidev w (xfers w) of
        OpenFailed \<Rightarrow> (- 1, rx, emit w1 (UnableToOpenPort (port pgm)))
      | Ioctl ret bs \<Rightarrow>
          if ret \<noteq> len then (- 1, store bs rx, emit w1 UnableToSendMessage)
          else (ret, store bs rx, w1))"

text \<open>
  \<^verbatim>\<open>exit(1)\<close> ends the process: a function either does that or returns a value.
\<close>

datatype 'a outcome = Exit int | Return 'a

text \<open>
  \<^verbatim>\<open>linuxspi_open\<close> (lines 141-153). The argument is a C string pointer: \<open>None\<close> is
  the null pointer, \<open>Some s\<close> points to the characters \<open>s\<close>. \<^verbatim>\<open>pgm->port\<close> is taken
  to be large enough for \<^verbatim>\<open>strcpy\<close>.
\<close>

definition linuxspi_open ::
  "world \<Rightarrow> programmer \<Rightarrow> string option \<Rightarrow> int outcome \<times> programmer \<times> world" where
  "linuxspi_open w pgm prt =
     (case prt of
        None \<Rightarrow> (Exit 1, pgm, emit w NoPortSpecified)
      | Some s \<Rightarrow>
          if s = ''unknown'' then (Exit 1, pgm, emit w NoPortSpecified)
          else (Return 0, pgm\<lparr>port := s\<rparr>, w))"

text \<open>\<^verbatim>\<open>linuxspi_cmd\<close> (lines 206-209).\<close>

definition linuxspi_cmd ::
  "world \<Rightarrow> programmer \<Rightarrow> byte list \<Rightarrow> byte list \<Rightarrow> int \<times> byte list \<times> world" where
  "linuxspi_cmd w pgm cmd res = linuxspi_spi_duplex w pgm cmd res 4"

text \<open>
  The content of \<^verbatim>\<open>unsigned char res[4];\<close> before anything is stored in it.
\<close>

definition uninit4 :: "world \<Rightarrow> byte list" where
  "uninit4 w = map (uninit w (xfers w)) [0, 1, 2, 3]"

text \<open>
  \<^verbatim>\<open>linuxspi_program_enable\<close> (lines 211-230). The value that \<^verbatim>\<open>pgm->cmd\<close> returns
  is dropped (line 224); the result is decided by \<^verbatim>\<open>res[2] != cmd[1]\<close> alone.
\<close>

definition linuxspi_program_enable :: "world \<Rightarrow> programmer \<Rightarrow> avrpart \<Rightarrow> int \<times> world" where
  "linuxspi_program_enable w pgm p =
     (case op p AVR_OP_PGM_ENABLE of
        None \<Rightarrow> (- 1, emit w (EnableNotDefined (desc p)))
      | Some t \<Rightarrow>
          (let cmd = avr_set_bits t (replicate 4 0) in
           case linuxspi_cmd w pgm cmd (uninit4 w) of
             (r, res, w') \<Rightarrow> if res ! 2 \<noteq> cmd ! 1 then (- 2, w') else (0, w')))"

text \<open>
  The \<^verbatim>\<open>do ... while (tries < 65)\<close> loop of \<^verbatim>\<open>linuxspi_initialize\<close> (lines
  188-195), entered with the current value of \<^verbatim>\<open>tries\<close>. It returns \<^verbatim>\<open>rc\<close> and
  \<^verbatim>\<open>tries\<close> as they are when the loop is left.
\<close>

function enable_loop :: "nat \<Rightarrow> world \<Rightarrow> programmer \<Rightarrow> avrpart \<Rightarrow> int \<times> nat \<times> world" where
  "enable_loop tries w pgm p =
     (case linuxspi_program_enable w pgm p of
        (rc, w') \<Rightarrow>
          if rc = 0 \<or> rc = - 1 then (rc, tries, w')
          else if tries + 1 < 65 then enable_loop (tries + 1) w' pgm p
          else (rc, tries + 1, w'))"
  by pat_completeness auto
termination
  by (relation "measure (\<lambda>(tries, w, pgm, p). 65 - tries)") auto


text \<open>
  \<^verbatim>\<open>linuxspi_initialize\<close> (lines 175-204). The macro \<^verbatim>\<open>AVRPART_HAS_TPI\<close> comes from
  a header that is not under \<^verbatim>\<open>src/\<close>; its value is the parameter \<open>has_tpi\<close>.
\<close>

definition linuxspi_initialize ::
  "32 word \<Rightarrow> world \<Rightarrow> programmer \<Rightarrow> avrpart \<Rightarrow> int \<times> world" where
  "linuxspi_initialize has_tpi w pgm p =
     (if flags p AND has_tpi \<noteq> 0
      then (- 1, emit w (NoTPISupport (pgm_type pgm)))
      else case enable_loop 0 w pgm p of
             (rc, tries, w') \<Rightarrow>
               if rc \<noteq> 0 then (- 1, emit w' DeviceNotResponding) else (0, w'))"

text \<open>
  \<^verbatim>\<open>linuxspi_chip_erase\<close> (lines 232-251). The values that \<^verbatim>\<open>pgm->cmd\<close> and
  \<^verbatim>\<open>pgm->initialize\<close> return are dropped (lines 246 and 248); line 250 returns 0.
\<close>

definition linuxspi_chip_erase ::
  "32 word \<Rightarrow> world \<Rightarrow> programmer \<Rightarrow> avrpart \<Rightarrow> int \<times> world" where
  "linuxspi_chip_erase has_tpi w pgm p =
     (case op p AVR_OP_CHIP_ERASE of
        None \<Rightarrow> (- 1, emit w (EraseNotDefined (desc p)))
      | Some t \<Rightarrow>
          (let cmd = avr_set_bits t (replicate 4 0) in
           case linuxspi_cmd w pgm cmd (uninit4 w) of
             (r, res, w1) \<Rightarrow>
               (let w2 = w1\<lparr>trace := trace w1 @ [Usleep (chip_erase_delay p)]\<rparr> in
                case linuxspi_initialize has_tpi w2 pgm p of
                  (rc, w3) \<Rightarrow> (0, w3))))"

section \<open>Notions used to state the properties\<close>

text \<open>
  \<open>build t\<close> is the command frame of a template: \<^verbatim>\<open>memset(cmd, 0, sizeof(cmd))\<close>
  followed by \<^verbatim>\<open>avr_set_bits\<close> (lines 222-223 and 243-245).
\<close>

definition build :: "opcode \<Rightarrow> byte list" where
  "build t = avr_set_bits t (replicate 4 0)"

text \<open>
  \<open>reply w n\<close> is what \<^verbatim>\<open>res\<close> holds after the \<open>n\<close>-th duplex call when the call was
  given a fresh \<^verbatim>\<open>res[4]\<close>: the indeterminate bytes, overwritten by whatever the
  driver stored.
\<close>

definition reply :: "world \<Rightarrow> nat \<Rightarrow> byte list" where
  "reply w n =
     (let r0 = map (uninit w n) [0, 1, 2, 3] in
      case spidev w n of OpenFailed \<Rightarrow> r0 | Ioctl ret bs \<Rightarrow> store bs r0)"

text \<open>The world after \<open>m\<close> successive calls of \<^verbatim>\<open>linuxspi_program_enable\<close>.\<close>

primrec attempts :: "nat \<Rightarrow> world \<Rightarrow> programmer \<Rightarrow> avrpart \<Rightarrow> world" where
  "attempts 0 w pgm p = w"
| "attempts (Suc m) w pgm p = attempts m (snd (linuxspi_program_enable w pgm p)) pgm p"

subsection \<open>Concrete parts, programmers and worlds\<close>

text \<open>
  A template that sets byte 0 to \<open>0xAC\<close> and byte 1 to \<open>0x53\<close> (program enable), and
  one that sets byte 0 to \<open>0xAC\<close> and byte 1 to \<open>0x80\<close> (chip erase).
\<close>

definition enable_AC53 :: opcode where
  "enable_AC53 =
     [SetBit 0 7 True, SetBit 0 5 True, SetBit 0 3 True, SetBit 0 2 True,
      SetBit 1 6 True, SetBit 1 4 True, SetBit 1 1 True, SetBit 1 0 True]"

definition erase_AC80 :: opcode where
  "erase_AC80 =
     [SetBit 0 7 True, SetBit 0 5 True, SetBit 0 3 True, SetBit 0 2 True, SetBit 1 7 True]"

definition pgm0 :: programmer where
  "pgm0 = \<lparr>port = ''/dev/spidev0.0'', pgm_type = ''linuxspi''\<rparr>"

definition part_P :: avrpart where
  "part_P =
     \<lparr>desc = ''P'', flags = 0,
      op = (\<lambda>x. case x of AVR_OP_PGM_ENABLE \<Rightarrow> Some enable_AC53
                        | AVR_OP_CHIP_ERASE \<Rightarrow> Some erase_AC80
                        | AVR_OP_OTHER n \<Rightarrow> None),
      chip_erase_delay = 9000\<rparr>"

text \<open>The same part flagged as a TPI part, and a part without any template.\<close>

definition part_tpi :: avrpart where
  "part_tpi = part_P\<lparr>flags := 0x800\<rparr>"

definition part_bare :: avrpart where
  "part_bare = \<lparr>desc = ''bare'', flags = 0, op = (\<lambda>x. None), chip_erase_delay = 9000\<rparr>"

text \<open>
  \<open>w_silent\<close>: every exchange succeeds and brings four zero bytes.
  \<open>w_third\<close>: the same, but the third exchange brings the echo \<open>0x53\<close> in byte 2.
  \<open>w_short\<close>: the first exchange reports three bytes instead of four.
  \<open>w_fault\<close>: the first exchange reports three bytes instead of four, all of them
  zero; later exchanges bring the echo. \<open>w_dead\<close>: the device node never opens.
\<close>

definition w_silent :: world where
  "w_silent = \<lparr>spidev = (\<lambda>n. Ioctl 4 [0, 0, 0, 0]), uninit = (\<lambda>n j. 0), trace = []\<rparr>"

definition w_third :: world where
  "w_third =
     \<lparr>spidev = (\<lambda>n. if n = 2 then Ioctl 4 [0, 0x53, 0x53, 0] else Ioctl 4 [0, 0, 0, 0]),
      uninit = (\<lambda>n j. 0), trace = []\<rparr>"

definition w_fault :: world where
  "w_fault =
     \<lparr>spidev = (\<lambda>n. if n = 0 then Ioctl 3 [0, 0, 0] else Ioctl 4 [0, 0x53, 0x53, 0]),
      uninit = (\<lambda>n j. 0x53), trace = []\<rparr>"

definition w_dead :: world where
  "w_dead = \<lparr>spidev = (\<lambda>n. OpenFailed), uninit = (\<lambda>n j. 0), trace = []\<rparr>"

definition w_short :: world where
  "w_short =
     \<lparr>spidev = (\<lambda>n. if n = 0 then Ioctl 3 [0, 0, 0] else Ioctl 4 [0, 0, 0, 0]),
      uninit = (\<lambda>n j. 0), trace = []\<rparr>"

text \<open>\<open>w_echo\<close>: every exchange succeeds and brings the echo \<open>0x53\<close> in byte 2.\<close>

definition w_echo :: world where
  "w_echo = \<lparr>spidev = (\<lambda>n. Ioctl 4 [0, 0x53, 0x53, 0]), uninit = (\<lambda>n j. 0), trace = []\<rparr>"

section \<open>Auxiliary facts\<close>

declare enable_loop.simps [simp del]

lemma emit_simps [simp]:
  "spidev (emit w m) = spidev w" "uninit (emit w m) = uninit w"
  "trace (emit w m) = trace w @ [Stderr m]" "xfers (emit w m) = xfers w"
  by (simp_all add: emit_def xfers_def)

lemma xfers_trace_upd [simp]:
  "xfers (w\<lparr>trace := trace w @ evs\<rparr>) = xfers w + length (filter is_duplex evs)"
  by (simp add: xfers_def)

lemma length_store [simp]: "length (store bs rx) = length rx"
  by (simp add: store_def)

lemma store_nth: "i < length bs \<Longrightarrow> i < length rx \<Longrightarrow> store bs rx ! i = bs ! i"
  by (simp add: store_def nth_append)

lemma length_uninit4 [simp]: "length (uninit4 w) = 4"
  by (simp add: uninit4_def)

lemma length_apply_bitop [simp]: "length (apply_bitop b cmd) = length cmd"
  by (cases b) simp

lemma length_avr_set_bits [simp]: "length (avr_set_bits t cmd) = length cmd"
  unfolding avr_set_bits_def by (induction t arbitrary: cmd) simp_all

lemma length_build [simp]: "length (build t) = 4"
  by (simp add: build_def)

lemma build_enable_AC53: "build enable_AC53 = [0xAC, 0x53, 0, 0]"
  by (simp add: build_def enable_AC53_def avr_set_bits_def numeral_eq_Suc)

lemma build_erase_AC80: "build erase_AC80 = [0xAC, 0x80, 0, 0]"
  by (simp add: build_def erase_AC80_def avr_set_bits_def numeral_eq_Suc)

subsection \<open>One duplex call\<close>

lemma duplex_frame [simp]:
  "spidev (snd (snd (linuxspi_spi_duplex w pgm tx rx len))) = spidev w"
  "uninit (snd (snd (linuxspi_spi_duplex w pgm tx rx len))) = uninit w"
  "xfers (snd (snd (linuxspi_spi_duplex w pgm tx rx len))) = Suc (xfers w)"
  by (simp_all add: linuxspi_spi_duplex_def Let_def split: spi_outcome.split)

lemma duplex_OpenFailed:
  "spidev w (xfers w) = OpenFailed \<Longrightarrow>
   linuxspi_spi_duplex w pgm tx rx len =
     (- 1, rx, w\<lparr>trace := trace w @ [Duplex (port pgm) tx len, Stderr (UnableToOpenPort (port pgm))]\<rparr>)"
  by (simp add: linuxspi_spi_duplex_def emit_def)

lemma duplex_short:
  "spidev w (xfers w) = Ioctl ret bs \<Longrightarrow> ret \<noteq> len \<Longrightarrow>
   linuxspi_spi_duplex w pgm tx rx len =
     (- 1, store bs rx, w\<lparr>trace := trace w @ [Duplex (port pgm) tx len, Stderr UnableToSendMessage]\<rparr>)"
  by (simp add: linuxspi_spi_duplex_def emit_def)

lemma duplex_full:
  "spidev w (xfers w) = Ioctl len bs \<Longrightarrow>
   linuxspi_spi_duplex w pgm tx rx len =
     (len, store bs rx, w\<lparr>trace := trace w @ [Duplex (port pgm) tx len]\<rparr>)"
  by (simp add: linuxspi_spi_duplex_def)

lemma cmd_reply:
  "fst (snd (linuxspi_cmd w pgm cmd (uninit4 w))) = reply w (xfers w)"
  by (simp add: linuxspi_cmd_def linuxspi_spi_duplex_def reply_def uninit4_def Let_def
      split: spi_outcome.split)

lemma reply_cong:
  "spidev w' = spidev w \<Longrightarrow> uninit w' = uninit w \<Longrightarrow> reply w' n = reply w n"
  by (simp add: reply_def)

lemma reply_full:
  "spidev w n = Ioctl ret bs \<Longrightarrow> length bs = 4 \<Longrightarrow> reply w n = bs"
  by (simp add: reply_def store_def)

subsection \<open>One handshake attempt\<close>

lemma program_enable_frame [simp]:
  "spidev (snd (linuxspi_program_enable w pgm p)) = spidev w"
  "uninit (snd (linuxspi_program_enable w pgm p)) = uninit w"
  by (simp_all add: linuxspi_program_enable_def linuxspi_cmd_def Let_def
      case_prod_beta split: option.split)

lemma program_enable_None:
  "op p AVR_OP_PGM_ENABLE = None \<Longrightarrow>
   linuxspi_program_enable w pgm p = (- 1, emit w (EnableNotDefined (desc p)))"
  by (simp add: linuxspi_program_enable_def)

lemma program_enable_Some:
  assumes "op p AVR_OP_PGM_ENABLE = Some t"
  shows "linuxspi_program_enable w pgm p =
           (if reply w (xfers w) ! 2 \<noteq> build t ! 1 then - 2 else 0,
            snd (snd (linuxspi_cmd w pgm (build t) (uninit4 w))))"
  using assms cmd_reply [of w pgm "build t"]
  by (cases "linuxspi_cmd w pgm (build t) (uninit4 w)")
     (simp add: linuxspi_program_enable_def build_def Let_def)

lemma program_enable_xfers:
  "op p AVR_OP_PGM_ENABLE = Some t \<Longrightarrow>
     xfers (snd (linuxspi_program_enable w pgm p)) = Suc (xfers w)"
  by (simp add: program_enable_Some linuxspi_cmd_def)

lemma program_enable_full:
  assumes "op p AVR_OP_PGM_ENABLE = Some t" and "spidev w (xfers w) = Ioctl 4 bs"
  shows "snd (linuxspi_program_enable w pgm p) =
           w\<lparr>trace := trace w @ [Duplex (port pgm) (build t) 4]\<rparr>"
  using assms by (simp add: program_enable_Some linuxspi_cmd_def duplex_full)

subsection \<open>Successive attempts and the retry loop\<close>

lemma attempts_frame [simp]:
  "spidev (attempts m w pgm p) = spidev w" "uninit (attempts m w pgm p) = uninit w"
  by (induction m arbitrary: w) simp_all

lemma attempts_xfers:
  "op p AVR_OP_PGM_ENABLE = Some t \<Longrightarrow> xfers (attempts m w pgm p) = xfers w + m"
  by (induction m arbitrary: w) (simp_all add: program_enable_xfers)

lemma attempts_Suc_end:
  "attempts (Suc m) w pgm p = snd (linuxspi_program_enable (attempts m w pgm p) pgm p)"
  by (induction m arbitrary: w) simp_all

lemma attempts_full:
  assumes t: "op p AVR_OP_PGM_ENABLE = Some t"
  shows "\<forall>i<m. \<exists>bs. spidev w (xfers w + i) = Ioctl 4 bs \<Longrightarrow>
         attempts m w pgm p = w\<lparr>trace := trace w @ replicate m (Duplex (port pgm) (build t) 4)\<rparr>"
proof (induction m arbitrary: w)
  case 0
  then show ?case by simp
next
  case (Suc m)
  let ?D = "Duplex (port pgm) (build t) 4"
  let ?w1 = "w\<lparr>trace := trace w @ [?D]\<rparr>"
  from Suc.prems have "\<exists>bs. spidev w (xfers w + 0) = Ioctl 4 bs" by blast
  then obtain bs where "spidev w (xfers w) = Ioctl 4 bs" by auto
  then have w1: "snd (linuxspi_program_enable w pgm p) = ?w1"
    by (rule program_enable_full [OF t])
  have "\<forall>i<m. \<exists>bs. spidev ?w1 (xfers ?w1 + i) = Ioctl 4 bs"
  proof (intro allI impI)
    fix i assume "i < m"
    then have "Suc i < Suc m" by simp
    then have "\<exists>bs. spidev w (xfers w + Suc i) = Ioctl 4 bs" using Suc.prems by blast
    then show "\<exists>bs. spidev ?w1 (xfers ?w1 + i) = Ioctl 4 bs" by simp
  qed
  then have "attempts m ?w1 pgm p = ?w1\<lparr>trace := trace ?w1 @ replicate m ?D\<rparr>"
    by (rule Suc.IH)
  then show ?case by (simp add: w1)
qed

lemma loop_retry:
  assumes t: "op p AVR_OP_PGM_ENABLE = Some t"
    and mis: "\<forall>i<m. reply w (xfers w + i) ! 2 \<noteq> build t ! 1"
    and bound: "tries + m < 65"
  shows "enable_loop tries w pgm p = enable_loop (tries + m) (attempts m w pgm p) pgm p"
  using mis bound
proof (induction m arbitrary: tries w)
  case 0
  then show ?case by simp
next
  case (Suc m)
  let ?w1 = "snd (linuxspi_program_enable w pgm p)"
  from Suc.prems(1) have "reply w (xfers w) ! 2 \<noteq> build t ! 1"
    by (metis add.right_neutral zero_less_Suc)
  then have rc: "fst (linuxspi_program_enable w pgm p) = - 2"
    by (simp add: program_enable_Some [OF t])
  have step: "enable_loop tries w pgm p = enable_loop (Suc tries) ?w1 pgm p"
    using Suc.prems(2) by (subst enable_loop.simps) (simp add: case_prod_beta rc)
  have "\<forall>i<m. reply ?w1 (xfers ?w1 + i) ! 2 \<noteq> build t ! 1"
  proof (intro allI impI)
    fix i assume "i < m"
    then have "Suc i < Suc m" by simp
    then have "reply w (xfers w + Suc i) ! 2 \<noteq> build t ! 1"
      using Suc.prems(1) by blast
    then show "reply ?w1 (xfers ?w1 + i) ! 2 \<noteq> build t ! 1"
      by (simp add: program_enable_xfers [OF t] reply_cong [of ?w1 w])
  qed
  with Suc.IH [of ?w1 "Suc tries"] Suc.prems(2) step show ?case by simp
qed

lemma loop_exhaust:
  assumes t: "op p AVR_OP_PGM_ENABLE = Some t"
    and mis: "\<forall>i<65. reply w (xfers w + i) ! 2 \<noteq> build t ! 1"
  shows "enable_loop 0 w pgm p = (- 2, 65, attempts 65 w pgm p)"
proof -
  let ?w = "attempts 64 w pgm p"
  have "enable_loop 0 w pgm p = enable_loop 64 ?w pgm p"
    using loop_retry [OF t, of 64 w 0 pgm] mis by simp
  moreover have "reply ?w (xfers ?w) ! 2 \<noteq> build t ! 1"
    using mis by (simp add: attempts_xfers [OF t] reply_cong [of ?w w])
  then have "fst (linuxspi_program_enable ?w pgm p) = - 2"
    by (simp add: program_enable_Some [OF t])
  then have "enable_loop 64 ?w pgm p = (- 2, 65, snd (linuxspi_program_enable ?w pgm p))"
    by (subst enable_loop.simps) (simp add: case_prod_beta)
  moreover have "attempts 65 w pgm p = snd (linuxspi_program_enable ?w pgm p)"
    using attempts_Suc_end [of 64 w pgm p] by simp
  ultimately show ?thesis by simp
qed

lemma loop_success:
  assumes t: "op p AVR_OP_PGM_ENABLE = Some t"
    and mis: "\<forall>i<m. reply w (xfers w + i) ! 2 \<noteq> build t ! 1"
    and hit: "reply w (xfers w + m) ! 2 = build t ! 1"
    and bound: "m < 65"
  shows "enable_loop 0 w pgm p = (0, m, attempts (Suc m) w pgm p)"
proof -
  let ?w = "attempts m w pgm p"
  have "enable_loop 0 w pgm p = enable_loop m ?w pgm p"
    using loop_retry [OF t, of m w 0 pgm] mis bound by simp
  moreover have "reply ?w (xfers ?w) ! 2 = build t ! 1"
    using hit by (simp add: attempts_xfers [OF t] reply_cong [of ?w w])
  then have "fst (linuxspi_program_enable ?w pgm p) = 0"
    by (simp add: program_enable_Some [OF t])
  then have "enable_loop m ?w pgm p = (0, m, snd (linuxspi_program_enable ?w pgm p))"
    by (subst enable_loop.simps) (simp add: case_prod_beta)
  ultimately show ?thesis using attempts_Suc_end [of m w pgm p] by simp
qed

lemma loop_None:
  "op p AVR_OP_PGM_ENABLE = None \<Longrightarrow>
   enable_loop tries w pgm p = (- 1, tries, emit w (EnableNotDefined (desc p)))"
  by (subst enable_loop.simps) (simp add: program_enable_None)

subsection \<open>The handshake against a device that answers every exchange\<close>

lemma emit_trace_upd:
  "emit (w\<lparr>trace := trace w @ evs\<rparr>) m = w\<lparr>trace := trace w @ evs @ [Stderr m]\<rparr>"
  by (simp add: emit_def)

lemma init_exhaust_full:
  assumes t: "op p AVR_OP_PGM_ENABLE = Some t"
    and spi: "flags p AND has_tpi = 0"
    and mis: "\<forall>i<65. spidev w (xfers w + i) = Ioctl 4 (rsp i) \<and> length (rsp i) = 4
                \<and> rsp i ! 2 \<noteq> build t ! 1"
  shows "enable_loop 0 w pgm p =
           (- 2, 65, w\<lparr>trace := trace w @ replicate 65 (Duplex (port pgm) (build t) 4)\<rparr>)"
    and "linuxspi_initialize has_tpi w pgm p =
           (- 1, w\<lparr>trace := trace w @ replicate 65 (Duplex (port pgm) (build t) 4)
                                 @ [Stderr DeviceNotResponding]\<rparr>)"
proof -
  have "\<forall>i<65. reply w (xfers w + i) ! 2 \<noteq> build t ! 1"
    using mis by (simp add: reply_full)
  then have "enable_loop 0 w pgm p = (- 2, 65, attempts 65 w pgm p)"
    by (rule loop_exhaust [OF t])
  moreover have "\<forall>i<65. \<exists>bs. spidev w (xfers w + i) = Ioctl 4 bs"
    using mis by blast
  then have "attempts 65 w pgm p =
      w\<lparr>trace := trace w @ replicate 65 (Duplex (port pgm) (build t) 4)\<rparr>"
    by (rule attempts_full [OF t])
  ultimately show loop: "enable_loop 0 w pgm p =
      (- 2, 65, w\<lparr>trace := trace w @ replicate 65 (Duplex (port pgm) (build t) 4)\<rparr>)"
    by simp
  show "linuxspi_initialize has_tpi w pgm p =
      (- 1, w\<lparr>trace := trace w @ replicate 65 (Duplex (port pgm) (build t) 4)
                            @ [Stderr DeviceNotResponding]\<rparr>)"
    using spi by (simp add: linuxspi_initialize_def loop emit_trace_upd)
qed

lemma init_success_full:
  assumes t: "op p AVR_OP_PGM_ENABLE = Some t"
    and spi: "flags p AND has_tpi = 0"
    and bound: "m < 65"
    and mis: "\<forall>i<m. spidev w (xfers w + i) = Ioctl 4 (rsp i) \<and> length (rsp i) = 4
                \<and> rsp i ! 2 \<noteq> build t ! 1"
    and hit: "spidev w (xfers w + m) = Ioctl 4 good \<and> length good = 4
                \<and> good ! 2 = build t ! 1"
  shows "enable_loop 0 w pgm p =
           (0, m, w\<lparr>trace := trace w @ replicate (Suc m) (Duplex (port pgm) (build t) 4)\<rparr>)"
    and "linuxspi_initialize has_tpi w pgm p =
           (0, w\<lparr>trace := trace w @ replicate (Suc m) (Duplex (port pgm) (build t) 4)\<rparr>)"
proof -
  have "\<forall>i<m. reply w (xfers w + i) ! 2 \<noteq> build t ! 1"
    using mis by (simp add: reply_full)
  moreover have "reply w (xfers w + m) ! 2 = build t ! 1"
    using hit by (simp add: reply_full)
  ultimately have "enable_loop 0 w pgm p = (0, m, attempts (Suc m) w pgm p)"
    using bound by (intro loop_success [OF t])
  moreover have "\<forall>i<Suc m. \<exists>bs. spidev w (xfers w + i) = Ioctl 4 bs"
    using mis hit by (auto simp: less_Suc_eq)
  then have "attempts (Suc m) w pgm p =
      w\<lparr>trace := trace w @ replicate (Suc m) (Duplex (port pgm) (build t) 4)\<rparr>"
    by (rule attempts_full [OF t])
  ultimately show loop: "enable_loop 0 w pgm p =
      (0, m, w\<lparr>trace := trace w @ replicate (Suc m) (Duplex (port pgm) (build t) 4)\<rparr>)"
    by simp
  show "linuxspi_initialize has_tpi w pgm p =
      (0, w\<lparr>trace := trace w @ replicate (Suc m) (Duplex (port pgm) (build t) 4)\<rparr>)"
    using spi by (simp add: linuxspi_initialize_def loop)
qed

lemma fresh_worlds [simp]:
  "trace w_silent = []" "trace w_third = []" "trace w_fault = []" "trace w_dead = []"
  "trace w_short = []" "trace w_echo = []"
  "xfers w_silent = 0" "xfers w_third = 0" "xfers w_fault = 0" "xfers w_dead = 0"
  "xfers w_short = 0" "xfers w_echo = 0"
  by (simp_all add: w_silent_def w_third_def w_fault_def w_dead_def w_short_def w_echo_def
      xfers_def)

lemma part_P_simps [simp]:
  "op part_P AVR_OP_PGM_ENABLE = Some enable_AC53"
  "op part_P AVR_OP_CHIP_ERASE = Some erase_AC80"
  "flags part_P = 0" "desc part_P = ''P''" "chip_erase_delay part_P = 9000"
  by (simp_all add: part_P_def)

subsection \<open>Events are only added\<close>

lemma duplex_extends:
  "\<exists>ds. trace (snd (snd (linuxspi_spi_duplex w pgm tx rx len))) =
          trace w @ Duplex (port pgm) tx len # map Stderr ds"
proof (cases "spidev w (xfers w)")
  case OpenFailed
  then have "trace (snd (snd (linuxspi_spi_duplex w pgm tx rx len))) =
      trace w @ Duplex (port pgm) tx len # map Stderr [UnableToOpenPort (port pgm)]"
    by (simp add: duplex_OpenFailed)
  then show ?thesis by blast
next
  case (Ioctl ret bs)
  show ?thesis
  proof (cases "ret = len")
    case True
    with Ioctl have "trace (snd (snd (linuxspi_spi_duplex w pgm tx rx len))) =
        trace w @ Duplex (port pgm) tx len # map Stderr []"
      by (simp add: duplex_full)
    then show ?thesis by blast
  next
    case False
    with Ioctl have "trace (snd (snd (linuxspi_spi_duplex w pgm tx rx len))) =
        trace w @ Duplex (port pgm) tx len # map Stderr [UnableToSendMessage]"
      by (simp add: duplex_short)
    then show ?thesis by blast
  qed
qed

lemma program_enable_extends:
  "\<exists>evs. trace (snd (linuxspi_program_enable w pgm p)) = trace w @ evs"
proof (cases "op p AVR_OP_PGM_ENABLE")
  case None
  then show ?thesis by (simp add: program_enable_None)
next
  case (Some t)
  from duplex_extends [of w pgm "build t" "uninit4 w" 4]
  show ?thesis by (auto simp: program_enable_Some [OF Some] linuxspi_cmd_def)
qed

lemma enable_loop_extends:
  "\<exists>evs. trace (snd (snd (enable_loop tries w pgm p))) = trace w @ evs"
proof (induction tries w pgm p rule: enable_loop.induct)
  case (1 tries w pgm p)
  obtain rc w' where pe: "linuxspi_program_enable w pgm p = (rc, w')"
    by (cases "linuxspi_program_enable w pgm p")
  from program_enable_extends [of w pgm p] pe
  obtain evs where evs: "trace w' = trace w @ evs" by auto
  show ?case
  proof (cases "rc = 0 \<or> rc = - 1 \<or> \<not> tries + 1 < 65")
    case True
    then have "snd (snd (enable_loop tries w pgm p)) = w'"
      by (subst enable_loop.simps) (auto simp: pe)
    with evs show ?thesis by simp
  next
    case False
    then have "enable_loop tries w pgm p = enable_loop (tries + 1) w' pgm p"
      by (subst enable_loop.simps) (simp add: pe)
    moreover from False "1.IH" [OF pe [symmetric]]
    obtain evs' where "trace (snd (snd (enable_loop (tries + 1) w' pgm p))) = trace w' @ evs'"
      by auto
    ultimately show ?thesis using evs by simp
  qed
qed

lemma initialize_extends:
  "\<exists>evs. trace (snd (linuxspi_initialize has_tpi w pgm p)) = trace w @ evs"
proof -
  obtain rc tries w' where l: "enable_loop 0 w pgm p = (rc, tries, w')"
    by (cases "enable_loop 0 w pgm p")
  with enable_loop_extends [of 0 w pgm p] obtain evs where "trace w' = trace w @ evs"
    by auto
  then show ?thesis by (simp add: linuxspi_initialize_def l)
qed

subsection \<open>Chip erase\<close>

lemma chip_erase_Some:
  assumes "op p AVR_OP_CHIP_ERASE = Some t"
  shows "linuxspi_chip_erase has_tpi w pgm p =
     (0, snd (linuxspi_initialize has_tpi
               ((snd (snd (linuxspi_cmd w pgm (build t) (uninit4 w))))
                  \<lparr>trace := trace (snd (snd (linuxspi_cmd w pgm (build t) (uninit4 w))))
                             @ [Usleep (chip_erase_delay p)]\<rparr>) pgm p))"
  using assms
  by (simp add: linuxspi_chip_erase_def build_def Let_def case_prod_beta)

subsection \<open>Concrete exchanges\<close>

lemma erase_cmd_answered:
  assumes "spidev w 0 = Ioctl 4 bs" and "trace w = []"
  shows "snd (snd (linuxspi_cmd w pgm0 (build erase_AC80) (uninit4 w))) =
           w\<lparr>trace := [Duplex ''/dev/spidev0.0'' [0xAC, 0x80, 0, 0] 4]\<rparr>"
  using assms
  by (simp add: linuxspi_cmd_def duplex_full [of _ _ bs] xfers_def pgm0_def build_erase_AC80)

lemma enable_attempt_answered:
  assumes "spidev w 0 = Ioctl 4 bs" and "length bs = 4" and "trace w = []"
  shows "linuxspi_program_enable w pgm0 part_P =
           (if bs ! 2 = 0x53 then 0 else - 2,
            w\<lparr>trace := [Duplex ''/dev/spidev0.0'' [0xAC, 0x53, 0, 0] 4]\<rparr>)"
proof -
  have x: "xfers w = 0" using assms(3) by (simp add: xfers_def)
  have t: "op part_P AVR_OP_PGM_ENABLE = Some enable_AC53" by simp
  have "reply w 0 = bs"
    using assms(1,2) by (rule reply_full)
  moreover have "snd (snd (linuxspi_cmd w pgm0 (build enable_AC53) (uninit4 w))) =
      w\<lparr>trace := [Duplex ''/dev/spidev0.0'' [0xAC, 0x53, 0, 0] 4]\<rparr>"
    using assms(1,3)
    by (simp add: linuxspi_cmd_def duplex_full [of _ _ bs] x pgm0_def build_enable_AC53)
  ultimately show ?thesis
    by (simp add: program_enable_Some [OF t] x build_enable_AC53)
qed

section \<open>The duplex exchange\<close>

text \<open>
  Claim C7. For every requested length \<open>len\<close>, \<^verbatim>\<open>linuxspi_spi_duplex\<close> returns either
  \<open>len\<close> or the error value \<open>-1\<close>. When the exchange reports a byte count different
  from \<open>len\<close>, it returns \<open>-1\<close> and writes "Unable to send SPI message". A result
  other than \<open>-1\<close> is only returned when the device node opened and the exchange
  reported exactly \<open>len\<close> bytes, so a partial transfer never ends in success.
\<close>

theorem duplex_exact_or_error:
  "(fst (linuxspi_spi_duplex w pgm tx rx len) = len
      \<or> fst (linuxspi_spi_duplex w pgm tx rx len) = - 1)
   \<and> (\<forall>ret bs. spidev w (xfers w) = Ioctl ret bs \<and> ret \<noteq> len \<longrightarrow>
          linuxspi_spi_duplex w pgm tx rx len =
            (- 1, store bs rx,
             w\<lparr>trace := trace w @ [Duplex (port pgm) tx len, Stderr UnableToSendMessage]\<rparr>))
   \<and> (fst (linuxspi_spi_duplex w pgm tx rx len) \<noteq> - 1 \<longrightarrow>
          fst (linuxspi_spi_duplex w pgm tx rx len) = len
          \<and> (\<exists>bs. spidev w (xfers w) = Ioctl len bs))"
proof (intro conjI allI impI)
  show "fst (linuxspi_spi_duplex w pgm tx rx len) = len
          \<or> fst (linuxspi_spi_duplex w pgm tx rx len) = - 1"
    by (simp add: linuxspi_spi_duplex_def Let_def split: spi_outcome.split)
next
  fix ret bs
  assume "spidev w (xfers w) = Ioctl ret bs \<and> ret \<noteq> len"
  then show "linuxspi_spi_duplex w pgm tx rx len =
      (- 1, store bs rx,
       w\<lparr>trace := trace w @ [Duplex (port pgm) tx len, Stderr UnableToSendMessage]\<rparr>)"
    by (simp add: duplex_short)
next
  assume ok: "fst (linuxspi_spi_duplex w pgm tx rx len) \<noteq> - 1"
  then show "fst (linuxspi_spi_duplex w pgm tx rx len) = len"
    by (simp add: linuxspi_spi_duplex_def Let_def split: spi_outcome.split_asm if_split_asm)
  from ok show "\<exists>bs. spidev w (xfers w) = Ioctl len bs"
    by (simp add: linuxspi_spi_duplex_def Let_def split: spi_outcome.split_asm if_split_asm)
qed

theorem duplex_exact_or_error_witness:
  "linuxspi_spi_duplex w_short pgm0 [0xAC, 0x53, 0, 0] [7, 7, 7, 7] 4 =
     (- 1, [0, 0, 0, 7],
      w_short\<lparr>trace := [Duplex ''/dev/spidev0.0'' [0xAC, 0x53, 0, 0] 4,
                         Stderr UnableToSendMessage]\<rparr>)
   \<and> fst (linuxspi_spi_duplex w_silent pgm0 [0xAC, 0x53, 0, 0] [7, 7, 7, 7] 4) = 4
   \<and> spidev w_silent (xfers w_silent) = Ioctl 4 [0, 0, 0, 0]"
proof -
  have a: "spidev w_short (xfers w_short) = Ioctl 3 [0, 0, 0] \<and> (3::int) \<noteq> 4"
    by (simp add: w_short_def xfers_def)
  have b: "fst (linuxspi_spi_duplex w_silent pgm0 [0xAC, 0x53, 0, 0] [7, 7, 7, 7] 4) \<noteq> - 1"
    by (simp add: linuxspi_spi_duplex_def Let_def w_silent_def xfers_def)
  from duplex_exact_or_error [of w_short pgm0 "[0xAC, 0x53, 0, 0]" "[7, 7, 7, 7]" 4] a
  have "linuxspi_spi_duplex w_short pgm0 [0xAC, 0x53, 0, 0] [7, 7, 7, 7] 4 =
     (- 1, store [0, 0, 0] [7, 7, 7, 7],
      w_short\<lparr>trace := trace w_short @ [Duplex (port pgm0) [0xAC, 0x53, 0, 0] 4,
                         Stderr UnableToSendMessage]\<rparr>)"
    by blast
  moreover
  from duplex_exact_or_error [of w_silent pgm0 "[0xAC, 0x53, 0, 0]" "[7, 7, 7, 7]" 4] b
  have "fst (linuxspi_spi_duplex w_silent pgm0 [0xAC, 0x53, 0, 0] [7, 7, 7, 7] 4) = 4"
    by blast
  moreover have "spidev w_silent (xfers w_silent) = Ioctl 4 [0, 0, 0, 0]"
    by (simp add: w_silent_def)
  ultimately show ?thesis
    by (simp add: store_def pgm0_def w_short_def)
qed

text \<open>
  Claim C10. Both ways in which \<^verbatim>\<open>linuxspi_spi_duplex\<close> fails give the caller the
  same value \<open>-1\<close>: the device node that does not open, and the exchange that reports
  a byte count different from \<open>len\<close>. The events of the two failures are one duplex
  call followed by one diagnostic, and the diagnostics differ: "Unable to open SPI
  port" against "Unable to send SPI message".
\<close>

theorem duplex_failures_same_value:
  "(spidev wa (xfers wa) = OpenFailed \<longrightarrow>
      linuxspi_spi_duplex wa pgm tx rx len =
        (- 1, rx,
         wa\<lparr>trace := trace wa @
              [Duplex (port pgm) tx len, Stderr (UnableToOpenPort (port pgm))]\<rparr>))
   \<and> (spidev wb (xfers wb) = Ioctl ret bs \<and> ret \<noteq> len \<longrightarrow>
      linuxspi_spi_duplex wb pgm tx rx len =
        (- 1, store bs rx,
         wb\<lparr>trace := trace wb @ [Duplex (port pgm) tx len, Stderr UnableToSendMessage]\<rparr>))
   \<and> (spidev wa (xfers wa) = OpenFailed \<and> spidev wb (xfers wb) = Ioctl ret bs \<and> ret \<noteq> len \<longrightarrow>
      fst (linuxspi_spi_duplex wa pgm tx rx len) = fst (linuxspi_spi_duplex wb pgm tx rx len))
   \<and> UnableToOpenPort (port pgm) \<noteq> UnableToSendMessage"
  by (simp add: duplex_OpenFailed duplex_short)

theorem duplex_failures_same_value_witness:
  "linuxspi_spi_duplex w_dead pgm0 [0xAC, 0x53, 0, 0] [7, 7, 7, 7] 4 =
     (- 1, [7, 7, 7, 7],
      w_dead\<lparr>trace := [Duplex ''/dev/spidev0.0'' [0xAC, 0x53, 0, 0] 4,
                        Stderr (UnableToOpenPort ''/dev/spidev0.0'')]\<rparr>)
   \<and> linuxspi_spi_duplex w_short pgm0 [0xAC, 0x53, 0, 0] [7, 7, 7, 7] 4 =
     (- 1, [0, 0, 0, 7],
      w_short\<lparr>trace := [Duplex ''/dev/spidev0.0'' [0xAC, 0x53, 0, 0] 4,
                         Stderr UnableToSendMessage]\<rparr>)
   \<and> fst (linuxspi_spi_duplex w_dead pgm0 [0xAC, 0x53, 0, 0] [7, 7, 7, 7] 4) =
     fst (linuxspi_spi_duplex w_short pgm0 [0xAC, 0x53, 0, 0] [7, 7, 7, 7] 4)"
proof -
  have a: "spidev w_dead (xfers w_dead) = OpenFailed"
    by (simp add: w_dead_def)
  have b: "spidev w_short (xfers w_short) = Ioctl 3 [0, 0, 0] \<and> (3::int) \<noteq> 4"
    by (simp add: w_short_def xfers_def)
  from duplex_failures_same_value
         [where wa = w_dead and wb = w_short and ret = 3 and bs = "[0, 0, 0]" and len = 4
            and pgm = pgm0 and tx = "[0xAC, 0x53, 0, 0]" and rx = "[7, 7, 7, 7]"] a b
  show ?thesis
    by (simp add: store_def pgm0_def w_dead_def w_short_def)
qed

section \<open>Opening the port\<close>

text \<open>
  Claim C5, as the code has it. \<^verbatim>\<open>linuxspi_open\<close> ends the process with
  \<^verbatim>\<open>exit(1)\<close> exactly when the port is the null pointer or the string "unknown".
  Every other string, the empty string included, is stored in \<^verbatim>\<open>pgm->port\<close> as it
  is, and 0 is returned.
\<close>

theorem open_fatal_iff:
  "(fst (linuxspi_open w pgm prt) = Exit 1 \<longleftrightarrow> prt = None \<or> prt = Some ''unknown'')
   \<and> (prt = None \<or> prt = Some ''unknown'' \<longrightarrow>
        linuxspi_open w pgm prt = (Exit 1, pgm, emit w NoPortSpecified))
   \<and> (\<forall>s. prt = Some s \<and> s \<noteq> ''unknown'' \<longrightarrow>
        linuxspi_open w pgm prt = (Return 0, pgm\<lparr>port := s\<rparr>, w)
        \<and> port (fst (snd (linuxspi_open w pgm prt))) = s)"
  by (auto simp: linuxspi_open_def split: option.split)

theorem open_fatal_iff_witness:
  "linuxspi_open w_silent pgm0 None = (Exit 1, pgm0, emit w_silent NoPortSpecified)
   \<and> linuxspi_open w_silent pgm0 (Some ''unknown'') = (Exit 1, pgm0, emit w_silent NoPortSpecified)
   \<and> linuxspi_open w_silent pgm0 (Some ''/dev/spidev1.0'') =
       (Return 0, pgm0\<lparr>port := ''/dev/spidev1.0''\<rparr>, w_silent)
   \<and> port (fst (snd (linuxspi_open w_silent pgm0 (Some ''/dev/spidev1.0'')))) = ''/dev/spidev1.0''"
  using open_fatal_iff [of w_silent pgm0 None]
    open_fatal_iff [of w_silent pgm0 "Some ''unknown''"]
    open_fatal_iff [of w_silent pgm0 "Some ''/dev/spidev1.0''"]
  by simp

text \<open>
  Claim C5, as the spec has it, fails for the empty string: \<^verbatim>\<open>open("")\<close> is not
  fatal, it records the empty port and returns 0.
\<close>

theorem open_empty_port_accepted:
  "linuxspi_open w_silent pgm0 (Some '''') = (Return 0, pgm0\<lparr>port := ''''\<rparr>, w_silent)"
  by (simp add: linuxspi_open_def)

section \<open>The enable handshake\<close>

text \<open>
  Claim C8. For a part whose flags have the TPI bit, \<^verbatim>\<open>linuxspi_initialize\<close> returns
  \<open>-1\<close> at once: the only event is the diagnostic "does not support TPI", and no
  duplex call is made.
\<close>

theorem tpi_part_rejected:
  assumes "flags p AND has_tpi \<noteq> 0"
  shows "linuxspi_initialize has_tpi w pgm p = (- 1, emit w (NoTPISupport (pgm_type pgm)))
       \<and> trace (snd (linuxspi_initialize has_tpi w pgm p)) =
           trace w @ [Stderr (NoTPISupport (pgm_type pgm))]
       \<and> xfers (snd (linuxspi_initialize has_tpi w pgm p)) = xfers w"
  using assms by (simp add: linuxspi_initialize_def)

theorem tpi_part_rejected_witness:
  "linuxspi_initialize 0x800 w_silent pgm0 part_tpi =
     (- 1, w_silent\<lparr>trace := [Stderr (NoTPISupport ''linuxspi'')]\<rparr>)
   \<and> xfers (snd (linuxspi_initialize 0x800 w_silent pgm0 part_tpi)) = 0"
proof -
  have "flags part_tpi AND 0x800 \<noteq> 0"
    by (simp add: part_tpi_def)
  from tpi_part_rejected [OF this, of w_silent pgm0]
  show ?thesis by (simp add: emit_def pgm0_def w_silent_def xfers_def)
qed

text \<open>
  Claim C3. Take a part with an enable template and without the TPI bit, and a device
  that answers each of the next 65 exchanges with four bytes whose byte 2 differs from
  byte 1 of the command. Then the loop is left with \<open>tries = 65\<close> and the mismatch
  status, the handshake has made exactly 65 duplex calls and nothing else, and
  \<^verbatim>\<open>linuxspi_initialize\<close> returns \<open>-1\<close> after the diagnostic "AVR device not
  responding".
\<close>

theorem enable_all_mismatch:
  assumes "op p AVR_OP_PGM_ENABLE = Some t"
    and "flags p AND has_tpi = 0"
    and "\<forall>i<65. spidev w (xfers w + i) = Ioctl 4 (rsp i) \<and> length (rsp i) = 4
           \<and> rsp i ! 2 \<noteq> build t ! 1"
  shows "enable_loop 0 w pgm p =
           (- 2, 65, w\<lparr>trace := trace w @ replicate 65 (Duplex (port pgm) (build t) 4)\<rparr>)
       \<and> linuxspi_initialize has_tpi w pgm p =
           (- 1, w\<lparr>trace := trace w @ replicate 65 (Duplex (port pgm) (build t) 4)
                                 @ [Stderr DeviceNotResponding]\<rparr>)
       \<and> xfers (snd (linuxspi_initialize has_tpi w pgm p)) = xfers w + 65"
proof -
  note r = init_exhaust_full [OF assms, of pgm]
  have "xfers (snd (linuxspi_initialize has_tpi w pgm p)) = xfers w + 65"
    by (simp add: r(2))
  with r show ?thesis by simp
qed

theorem enable_all_mismatch_witness:
  "linuxspi_initialize 0x800 w_silent pgm0 part_P =
     (- 1, w_silent\<lparr>trace := replicate 65 (Duplex ''/dev/spidev0.0'' [0xAC, 0x53, 0, 0] 4)
                                @ [Stderr DeviceNotResponding]\<rparr>)
   \<and> xfers (snd (linuxspi_initialize 0x800 w_silent pgm0 part_P)) = 65"
proof -
  have a: "flags part_P AND 0x800 = 0" by simp
  have b: "\<forall>i<65. spidev w_silent (xfers w_silent + i) = Ioctl 4 [0, 0, 0, 0]
             \<and> length [0, 0, 0, 0 :: byte] = 4 \<and> [0, 0, 0, 0] ! 2 \<noteq> build enable_AC53 ! 1"
    by (simp add: w_silent_def build_enable_AC53)
  from enable_all_mismatch [of part_P enable_AC53 "0x800" w_silent "\<lambda>i. [0, 0, 0, 0]" pgm0] a b
  show ?thesis
    by (simp add: build_enable_AC53 pgm0_def w_silent_def xfers_def)
qed

text \<open>
  Claim C4. Take a part with an enable template and without the TPI bit, and
  \<open>1 \<le> k \<le> 65\<close>. If the device answers the first \<open>k - 1\<close> exchanges with four bytes
  whose byte 2 differs from byte 1 of the command, and the \<open>k\<close>-th with four bytes whose
  byte 2 equals it, then the loop is left through its \<^verbatim>\<open>break\<close> in the \<open>k\<close>-th
  iteration (\<open>tries = k - 1\<close>) with status 0, \<^verbatim>\<open>linuxspi_initialize\<close> returns 0, and
  the handshake has made exactly \<open>k\<close> duplex calls and nothing else.
\<close>

theorem enable_succeeds_at_k:
  assumes "op p AVR_OP_PGM_ENABLE = Some t"
    and "flags p AND has_tpi = 0"
    and "1 \<le> k" and "k \<le> 65"
    and "\<forall>i<k - 1. spidev w (xfers w + i) = Ioctl 4 (rsp i) \<and> length (rsp i) = 4
           \<and> rsp i ! 2 \<noteq> build t ! 1"
    and "spidev w (xfers w + (k - 1)) = Ioctl 4 good \<and> length good = 4
           \<and> good ! 2 = build t ! 1"
  shows "enable_loop 0 w pgm p =
           (0, k - 1, w\<lparr>trace := trace w @ replicate k (Duplex (port pgm) (build t) 4)\<rparr>)
       \<and> linuxspi_initialize has_tpi w pgm p =
           (0, w\<lparr>trace := trace w @ replicate k (Duplex (port pgm) (build t) 4)\<rparr>)
       \<and> xfers (snd (linuxspi_initialize has_tpi w pgm p)) = xfers w + k"
proof -
  from assms(3,4) have m: "k - 1 < 65" and k: "Suc (k - 1) = k" by simp_all
  note r = init_success_full [OF assms(1,2) m assms(5,6), of pgm, unfolded k]
  have "xfers (snd (linuxspi_initialize has_tpi w pgm p)) = xfers w + k"
    by (simp add: r(2))
  with r show ?thesis by simp
qed

theorem enable_succeeds_at_k_witness:
  "enable_loop 0 w_third pgm0 part_P =
     (0, 2, w_third\<lparr>trace := replicate 3 (Duplex ''/dev/spidev0.0'' [0xAC, 0x53, 0, 0] 4)\<rparr>)
   \<and> linuxspi_initialize 0x800 w_third pgm0 part_P =
     (0, w_third\<lparr>trace := replicate 3 (Duplex ''/dev/spidev0.0'' [0xAC, 0x53, 0, 0] 4)\<rparr>)
   \<and> xfers (snd (linuxspi_initialize 0x800 w_third pgm0 part_P)) = 3"
proof -
  have a: "flags part_P AND 0x800 = 0" by simp
  have x: "xfers w_third = 0" by simp
  have b: "\<forall>i<3 - 1. spidev w_third (xfers w_third + i) = Ioctl 4 [0, 0, 0, 0]
             \<and> length [0, 0, 0, 0 :: byte] = 4 \<and> [0, 0, 0, 0] ! 2 \<noteq> build enable_AC53 ! 1"
    by (simp add: x build_enable_AC53) (simp add: w_third_def)
  have c: "spidev w_third (xfers w_third + (3 - 1)) = Ioctl 4 [0, 0x53, 0x53, 0]
             \<and> length [0, 0x53, 0x53, 0 :: byte] = 4
             \<and> [0, 0x53, 0x53, 0] ! 2 = build enable_AC53 ! 1"
    by (simp add: x build_enable_AC53) (simp add: w_third_def)
  from enable_succeeds_at_k
         [of part_P enable_AC53 "0x800" 3 w_third "\<lambda>i. [0, 0, 0, 0]" "[0, 0x53, 0x53, 0]" pgm0]
       a b c
  show ?thesis
    by (simp add: build_enable_AC53 pgm0_def xfers_def)
qed

text \<open>
  Claim C6. The command of an enable attempt is the all-zero frame of four bytes with
  the bit-set operations of the template applied, and it is what the attempt sends.
  With \<open>res\<close> the receive buffer after the exchange, the attempt returns 0 when
  \<open>res ! 2 = cmd ! 1\<close> and \<open>-2\<close> otherwise. The template \<open>enable_AC53\<close> gives the
  frame \<open>[0xAC, 0x53, 0, 0]\<close>. For a part whose frame is \<open>[0xAC, 0x53, 0, 0]\<close>, two
  mismatching answers followed by the answer \<open>[0, 0x53, 0x53, 0]\<close> make the
  handshake succeed in its third attempt, after three duplex calls.
\<close>

theorem enable_frame_and_echo:
  assumes "op p AVR_OP_PGM_ENABLE = Some t"
  shows "build t = fold apply_bitop t [0, 0, 0, 0]
       \<and> (case linuxspi_cmd w pgm (build t) (uninit4 w) of
            (r, res, w') \<Rightarrow>
              linuxspi_program_enable w pgm p = (if res ! 2 = build t ! 1 then 0 else - 2, w')
              \<and> (fst (linuxspi_program_enable w pgm p) = 0 \<longleftrightarrow> res ! 2 = build t ! 1)
              \<and> trace w' ! length (trace w) = Duplex (port pgm) (build t) 4)
       \<and> build enable_AC53 = [0xAC, 0x53, 0, 0]
       \<and> (build t = [0xAC, 0x53, 0, 0] \<and> flags p AND has_tpi = 0
            \<and> (\<forall>i<2. spidev w (xfers w + i) = Ioctl 4 (rsp i) \<and> length (rsp i) = 4
                      \<and> rsp i ! 2 \<noteq> 0x53)
            \<and> spidev w (xfers w + 2) = Ioctl 4 [0, 0x53, 0x53, 0] \<longrightarrow>
          enable_loop 0 w pgm p =
            (0, 2, w\<lparr>trace := trace w @ replicate 3 (Duplex (port pgm) [0xAC, 0x53, 0, 0] 4)\<rparr>)
          \<and> linuxspi_initialize has_tpi w pgm p =
            (0, w\<lparr>trace := trace w @ replicate 3 (Duplex (port pgm) [0xAC, 0x53, 0, 0] 4)\<rparr>))"
proof (intro conjI impI)
  show "build t = fold apply_bitop t [0, 0, 0, 0]"
    by (simp add: build_def avr_set_bits_def numeral_eq_Suc)
next
  obtain r res w' where c: "linuxspi_cmd w pgm (build t) (uninit4 w) = (r, res, w')"
    by (cases "linuxspi_cmd w pgm (build t) (uninit4 w)")
  from cmd_reply [of w pgm "build t"] c have res: "reply w (xfers w) = res" by simp
  from duplex_extends [of w pgm "build t" "uninit4 w" 4] c
  have "trace w' ! length (trace w) = Duplex (port pgm) (build t) 4"
    by (auto simp: linuxspi_cmd_def)
  then show "case linuxspi_cmd w pgm (build t) (uninit4 w) of
      (r, res, w') \<Rightarrow>
        linuxspi_program_enable w pgm p = (if res ! 2 = build t ! 1 then 0 else - 2, w')
        \<and> (fst (linuxspi_program_enable w pgm p) = 0 \<longleftrightarrow> res ! 2 = build t ! 1)
        \<and> trace w' ! length (trace w) = Duplex (port pgm) (build t) 4"
    by (simp add: c program_enable_Some [OF assms] res)
next
  show "build enable_AC53 = [0xAC, 0x53, 0, 0]"
    by (rule build_enable_AC53)
next
  assume h: "build t = [0xAC, 0x53, 0, 0] \<and> flags p AND has_tpi = 0
      \<and> (\<forall>i<2. spidev w (xfers w + i) = Ioctl 4 (rsp i) \<and> length (rsp i) = 4
                \<and> rsp i ! 2 \<noteq> 0x53)
      \<and> spidev w (xfers w + 2) = Ioctl 4 [0, 0x53, 0x53, 0]"
  then have b: "build t = [0xAC, 0x53, 0, 0]" and f: "flags p AND has_tpi = 0" by simp_all
  from h b have mis: "\<forall>i<2. spidev w (xfers w + i) = Ioctl 4 (rsp i) \<and> length (rsp i) = 4
      \<and> rsp i ! 2 \<noteq> build t ! 1"
    by simp
  from h b have hit: "spidev w (xfers w + 2) = Ioctl 4 [0, 0x53, 0x53, 0]
      \<and> length [0, 0x53, 0x53, 0 :: byte] = 4 \<and> [0, 0x53, 0x53, 0] ! 2 = build t ! 1"
    by simp
  have m: "(2::nat) < 65" by simp
  note r = init_success_full [OF assms f m mis hit, of pgm]
  from r(1) b show "enable_loop 0 w pgm p =
      (0, 2, w\<lparr>trace := trace w @ replicate 3 (Duplex (port pgm) [0xAC, 0x53, 0, 0] 4)\<rparr>)"
    by (simp add: numeral_3_eq_3)
  from r(2) b show "linuxspi_initialize has_tpi w pgm p =
      (0, w\<lparr>trace := trace w @ replicate 3 (Duplex (port pgm) [0xAC, 0x53, 0, 0] 4)\<rparr>)"
    by (simp add: numeral_3_eq_3)
qed

theorem enable_frame_and_echo_witness:
  "build enable_AC53 = [0xAC, 0x53, 0, 0]
   \<and> linuxspi_program_enable w_echo pgm0 part_P =
       (0, w_echo\<lparr>trace := [Duplex ''/dev/spidev0.0'' [0xAC, 0x53, 0, 0] 4]\<rparr>)
   \<and> linuxspi_program_enable w_silent pgm0 part_P =
       (- 2, w_silent\<lparr>trace := [Duplex ''/dev/spidev0.0'' [0xAC, 0x53, 0, 0] 4]\<rparr>)
   \<and> enable_loop 0 w_third pgm0 part_P =
       (0, 2, w_third\<lparr>trace := replicate 3 (Duplex ''/dev/spidev0.0'' [0xAC, 0x53, 0, 0] 4)\<rparr>)
   \<and> linuxspi_initialize 0x800 w_third pgm0 part_P =
       (0, w_third\<lparr>trace := replicate 3 (Duplex ''/dev/spidev0.0'' [0xAC, 0x53, 0, 0] 4)\<rparr>)"
proof -
  have t: "op part_P AVR_OP_PGM_ENABLE = Some enable_AC53" by simp
  have ce: "linuxspi_cmd w_echo pgm0 (build enable_AC53) (uninit4 w_echo) =
      (4, [0, 0x53, 0x53, 0], w_echo\<lparr>trace := [Duplex ''/dev/spidev0.0'' [0xAC, 0x53, 0, 0] 4]\<rparr>)"
    by (simp add: linuxspi_cmd_def duplex_full [of _ _ "[0, 0x53, 0x53, 0]"] w_echo_def
        xfers_def store_def uninit4_def pgm0_def build_enable_AC53)
  have cs: "linuxspi_cmd w_silent pgm0 (build enable_AC53) (uninit4 w_silent) =
      (4, [0, 0, 0, 0], w_silent\<lparr>trace := [Duplex ''/dev/spidev0.0'' [0xAC, 0x53, 0, 0] 4]\<rparr>)"
    by (simp add: linuxspi_cmd_def duplex_full [of _ _ "[0, 0, 0, 0]"] w_silent_def
        xfers_def store_def uninit4_def pgm0_def build_enable_AC53)
  have h: "build enable_AC53 = [0xAC, 0x53, 0, 0] \<and> flags part_P AND 0x800 = 0
      \<and> (\<forall>i<2. spidev w_third (xfers w_third + i) = Ioctl 4 [0, 0, 0, 0]
                \<and> length [0, 0, 0, 0 :: byte] = 4 \<and> [0, 0, 0, 0 :: byte] ! 2 \<noteq> 0x53)
      \<and> spidev w_third (xfers w_third + 2) = Ioctl 4 [0, 0x53, 0x53, 0]"
    by (simp add: build_enable_AC53) (simp add: w_third_def)
  from enable_frame_and_echo [OF t, of w_echo pgm0, THEN conjunct2, THEN conjunct1] ce
  have 1: "linuxspi_program_enable w_echo pgm0 part_P =
      (0, w_echo\<lparr>trace := [Duplex ''/dev/spidev0.0'' [0xAC, 0x53, 0, 0] 4]\<rparr>)"
    by (simp add: build_enable_AC53)
  from enable_frame_and_echo [OF t, of w_silent pgm0, THEN conjunct2, THEN conjunct1] cs
  have 2: "linuxspi_program_enable w_silent pgm0 part_P =
      (- 2, w_silent\<lparr>trace := [Duplex ''/dev/spidev0.0'' [0xAC, 0x53, 0, 0] 4]\<rparr>)"
    by (simp add: build_enable_AC53)
  from enable_frame_and_echo [OF t, of w_third pgm0 "0x800" "\<lambda>i. [0, 0, 0, 0]",
         THEN conjunct2, THEN conjunct2, THEN conjunct2] h
  have 3: "enable_loop 0 w_third pgm0 part_P =
       (0, 2, w_third\<lparr>trace := replicate 3 (Duplex ''/dev/spidev0.0'' [0xAC, 0x53, 0, 0] 4)\<rparr>)
     \<and> linuxspi_initialize 0x800 w_third pgm0 part_P =
       (0, w_third\<lparr>trace := replicate 3 (Duplex ''/dev/spidev0.0'' [0xAC, 0x53, 0, 0] 4)\<rparr>)"
    by (simp add: pgm0_def)
  from 1 2 3 show ?thesis by (simp add: build_enable_AC53)
qed

section \<open>Chip erase\<close>

text \<open>
  Claim C9. For a part without an erase template, \<^verbatim>\<open>linuxspi_chip_erase\<close> returns
  \<open>-1\<close> at once: the only event is the diagnostic "chip erase instruction not
  defined", and no duplex call is made.
\<close>

theorem erase_without_template:
  assumes "op p AVR_OP_CHIP_ERASE = None"
  shows "linuxspi_chip_erase has_tpi w pgm p = (- 1, emit w (EraseNotDefined (desc p)))
       \<and> trace (snd (linuxspi_chip_erase has_tpi w pgm p)) =
           trace w @ [Stderr (EraseNotDefined (desc p))]
       \<and> xfers (snd (linuxspi_chip_erase has_tpi w pgm p)) = xfers w"
  using assms by (simp add: linuxspi_chip_erase_def)

theorem erase_without_template_witness:
  "linuxspi_chip_erase 0x800 w_echo pgm0 part_bare =
     (- 1, w_echo\<lparr>trace := [Stderr (EraseNotDefined ''bare'')]\<rparr>)
   \<and> xfers (snd (linuxspi_chip_erase 0x800 w_echo pgm0 part_bare)) = 0"
proof -
  have "op part_bare AVR_OP_CHIP_ERASE = None"
    by (simp add: part_bare_def)
  from erase_without_template [OF this, of "0x800" w_echo pgm0]
  show ?thesis by (simp add: emit_def part_bare_def xfers_def)
qed

text \<open>
  Claim C2, as the code has it. For a part with an erase template,
  \<^verbatim>\<open>linuxspi_chip_erase\<close> makes exactly one duplex call, with the erase command,
  then calls \<^verbatim>\<open>usleep\<close> with the delay of the part, then runs
  \<^verbatim>\<open>linuxspi_initialize\<close> from the world so reached, and returns 0 whatever
  \<^verbatim>\<open>linuxspi_initialize\<close> returns.
\<close>

theorem chip_erase_sequence:
  assumes "op p AVR_OP_CHIP_ERASE = Some t"
  shows "(let w1 = snd (snd (linuxspi_cmd w pgm (build t) (uninit4 w)));
              w2 = w1\<lparr>trace := trace w1 @ [Usleep (chip_erase_delay p)]\<rparr>
          in linuxspi_chip_erase has_tpi w pgm p =
               (0, snd (linuxspi_initialize has_tpi w2 pgm p))
             \<and> xfers w2 = xfers w + 1
             \<and> (\<exists>ds. trace w1 = trace w @ Duplex (port pgm) (build t) 4 # map Stderr ds)
             \<and> (\<exists>evs. trace (snd (linuxspi_chip_erase has_tpi w pgm p)) = trace w2 @ evs))"
proof -
  let ?w1 = "snd (snd (linuxspi_cmd w pgm (build t) (uninit4 w)))"
  let ?w2 = "?w1\<lparr>trace := trace ?w1 @ [Usleep (chip_erase_delay p)]\<rparr>"
  have a: "linuxspi_chip_erase has_tpi w pgm p =
      (0, snd (linuxspi_initialize has_tpi ?w2 pgm p))"
    by (rule chip_erase_Some [OF assms])
  have b: "xfers ?w2 = xfers w + 1"
    by (simp add: linuxspi_cmd_def)
  have c: "\<exists>ds. trace ?w1 = trace w @ Duplex (port pgm) (build t) 4 # map Stderr ds"
    unfolding linuxspi_cmd_def by (rule duplex_extends)
  have d: "\<exists>evs. trace (snd (linuxspi_chip_erase has_tpi w pgm p)) = trace ?w2 @ evs"
    using initialize_extends [of has_tpi ?w2 pgm p] by (simp add: a)
  from a b c d show ?thesis by (simp only: Let_def)
qed

theorem chip_erase_sequence_witness:
  "linuxspi_chip_erase 0x800 w_echo pgm0 part_P =
     (0, w_echo\<lparr>trace := [Duplex ''/dev/spidev0.0'' [0xAC, 0x80, 0, 0] 4, Usleep 9000,
                            Duplex ''/dev/spidev0.0'' [0xAC, 0x53, 0, 0] 4]\<rparr>)"
proof -
  let ?w2 = "w_echo\<lparr>trace := [Duplex ''/dev/spidev0.0'' [0xAC, 0x80, 0, 0] 4, Usleep 9000]\<rparr>"
  have t: "op part_P AVR_OP_CHIP_ERASE = Some erase_AC80" by simp
  have w1: "snd (snd (linuxspi_cmd w_echo pgm0 (build erase_AC80) (uninit4 w_echo))) =
      w_echo\<lparr>trace := [Duplex ''/dev/spidev0.0'' [0xAC, 0x80, 0, 0] 4]\<rparr>"
    by (rule erase_cmd_answered [of _ "[0, 0x53, 0x53, 0]"]) (simp_all add: w_echo_def)
  have e: "op part_P AVR_OP_PGM_ENABLE = Some enable_AC53" and f: "flags part_P AND 0x800 = 0"
    by simp_all
  have hit: "spidev ?w2 (xfers ?w2 + 0) = Ioctl 4 [0, 0x53, 0x53, 0]
      \<and> length [0, 0x53, 0x53, 0 :: byte] = 4
      \<and> [0, 0x53, 0x53, 0] ! 2 = build enable_AC53 ! 1"
    by (simp add: w_echo_def build_enable_AC53)
  have "linuxspi_initialize 0x800 ?w2 pgm0 part_P =
      (0, ?w2\<lparr>trace := trace ?w2 @ replicate (Suc 0) (Duplex (port pgm0) (build enable_AC53) 4)\<rparr>)"
    by (rule init_success_full(2) [OF e f _ _ hit, of "\<lambda>i. []"]) simp_all
  with chip_erase_sequence [OF t, of w_echo pgm0 "0x800"] w1
  show ?thesis
    by (simp add: Let_def build_enable_AC53 pgm0_def)
qed

text \<open>
  Claim C2, as the spec has it, fails: against a device that never echoes, the
  re-enable after the erase returns \<open>-1\<close> after 65 attempts, and
  \<^verbatim>\<open>linuxspi_chip_erase\<close> returns 0.
\<close>

theorem chip_erase_hides_failed_enable:
  "linuxspi_initialize 0x800
     (w_silent\<lparr>trace := [Duplex ''/dev/spidev0.0'' [0xAC, 0x80, 0, 0] 4, Usleep 9000]\<rparr>)
     pgm0 part_P =
     (- 1, w_silent\<lparr>trace := [Duplex ''/dev/spidev0.0'' [0xAC, 0x80, 0, 0] 4, Usleep 9000]
                                 @ replicate 65 (Duplex ''/dev/spidev0.0'' [0xAC, 0x53, 0, 0] 4)
                                 @ [Stderr DeviceNotResponding]\<rparr>)
   \<and> linuxspi_chip_erase 0x800 w_silent pgm0 part_P =
     (0, w_silent\<lparr>trace := [Duplex ''/dev/spidev0.0'' [0xAC, 0x80, 0, 0] 4, Usleep 9000]
                               @ replicate 65 (Duplex ''/dev/spidev0.0'' [0xAC, 0x53, 0, 0] 4)
                               @ [Stderr DeviceNotResponding]\<rparr>)"
proof -
  let ?w2 = "w_silent\<lparr>trace := [Duplex ''/dev/spidev0.0'' [0xAC, 0x80, 0, 0] 4, Usleep 9000]\<rparr>"
  have t: "op part_P AVR_OP_CHIP_ERASE = Some erase_AC80" by simp
  have w1: "snd (snd (linuxspi_cmd w_silent pgm0 (build erase_AC80) (uninit4 w_silent))) =
      w_silent\<lparr>trace := [Duplex ''/dev/spidev0.0'' [0xAC, 0x80, 0, 0] 4]\<rparr>"
    by (rule erase_cmd_answered [of _ "[0, 0, 0, 0]"]) (simp_all add: w_silent_def)
  have e: "op part_P AVR_OP_PGM_ENABLE = Some enable_AC53" and f: "flags part_P AND 0x800 = 0"
    by simp_all
  have mis: "\<forall>i<65. spidev ?w2 (xfers ?w2 + i) = Ioctl 4 [0, 0, 0, 0]
      \<and> length [0, 0, 0, 0 :: byte] = 4 \<and> [0, 0, 0, 0] ! 2 \<noteq> build enable_AC53 ! 1"
    by (simp add: w_silent_def build_enable_AC53)
  have i: "linuxspi_initialize 0x800 ?w2 pgm0 part_P =
      (- 1, ?w2\<lparr>trace := trace ?w2 @ replicate 65 (Duplex (port pgm0) (build enable_AC53) 4)
                                     @ [Stderr DeviceNotResponding]\<rparr>)"
    by (rule init_exhaust_full(2) [OF e f, of _ "\<lambda>i. [0, 0, 0, 0]"]) (rule mis)
  then have 1: "linuxspi_initialize 0x800 ?w2 pgm0 part_P =
      (- 1, w_silent\<lparr>trace := [Duplex ''/dev/spidev0.0'' [0xAC, 0x80, 0, 0] 4, Usleep 9000]
                                 @ replicate 65 (Duplex ''/dev/spidev0.0'' [0xAC, 0x53, 0, 0] 4)
                                 @ [Stderr DeviceNotResponding]\<rparr>)"
    by (simp add: build_enable_AC53 pgm0_def)
  from chip_erase_Some [OF t, of "0x800" w_silent pgm0] w1 1
  have 2: "linuxspi_chip_erase 0x800 w_silent pgm0 part_P =
      (0, w_silent\<lparr>trace := [Duplex ''/dev/spidev0.0'' [0xAC, 0x80, 0, 0] 4, Usleep 9000]
                               @ replicate 65 (Duplex ''/dev/spidev0.0'' [0xAC, 0x53, 0, 0] 4)
                               @ [Stderr DeviceNotResponding]\<rparr>)"
    by simp
  from 1 2 show ?thesis by (rule conjI)
qed

section \<open>Transport failures during the handshake\<close>

text \<open>
  Claim C1, as the code has it. \<^verbatim>\<open>linuxspi_program_enable\<close> does not look at the
  status that the duplex exchange returns: with an enable template, an attempt returns
  0 when byte 2 of the receive buffer equals byte 1 of the command and \<open>-2\<close>
  otherwise, whatever the exchange reported. It returns \<open>-1\<close> exactly when the part
  has no enable template. The loop is left at once after an attempt that returns 0 or
  \<open>-1\<close>, and goes on after one that returns \<open>-2\<close> while \<open>tries + 1 < 65\<close>. Without
  an enable template it is left in its first iteration, no duplex call is made, and \<^verbatim>\<open>linuxspi_initialize\<close> returns \<open>-1\<close> after the diagnostics
  "program enable instruction not defined" and "AVR device not responding".
  \<^verbatim>\<open>linuxspi_initialize\<close> returns 0 or \<open>-1\<close>: every failure has the same value.
\<close>

theorem enable_ignores_transport_status:
  "(fst (linuxspi_program_enable w pgm p) = - 1 \<longleftrightarrow> op p AVR_OP_PGM_ENABLE = None)
   \<and> (\<forall>t. op p AVR_OP_PGM_ENABLE = Some t \<longrightarrow>
          fst (linuxspi_program_enable w pgm p) =
            (if fst (snd (linuxspi_cmd w pgm (build t) (uninit4 w))) ! 2 = build t ! 1
             then 0 else - 2))
   \<and> (op p AVR_OP_PGM_ENABLE = None \<and> flags p AND has_tpi = 0 \<longrightarrow>
          enable_loop 0 w pgm p = (- 1, 0, emit w (EnableNotDefined (desc p)))
          \<and> linuxspi_initialize has_tpi w pgm p =
              (- 1, w\<lparr>trace := trace w @ [Stderr (EnableNotDefined (desc p)),
                                            Stderr DeviceNotResponding]\<rparr>)
          \<and> xfers (snd (linuxspi_initialize has_tpi w pgm p)) = xfers w)
   \<and> (fst (linuxspi_program_enable w pgm p) = 0 \<or> fst (linuxspi_program_enable w pgm p) = - 1 \<longrightarrow>
          enable_loop tries w pgm p =
            (fst (linuxspi_program_enable w pgm p), tries, snd (linuxspi_program_enable w pgm p)))
   \<and> (fst (linuxspi_program_enable w pgm p) = - 2 \<and> tries + 1 < 65 \<longrightarrow>
          enable_loop tries w pgm p =
            enable_loop (tries + 1) (snd (linuxspi_program_enable w pgm p)) pgm p)
   \<and> (fst (linuxspi_initialize has_tpi w pgm p) = 0
        \<or> fst (linuxspi_initialize has_tpi w pgm p) = - 1)"
proof (intro conjI allI impI)
  assume "fst (linuxspi_program_enable w pgm p) = 0 \<or> fst (linuxspi_program_enable w pgm p) = - 1"
  then show "enable_loop tries w pgm p =
      (fst (linuxspi_program_enable w pgm p), tries, snd (linuxspi_program_enable w pgm p))"
    by (subst enable_loop.simps) (simp add: case_prod_beta)
next
  assume "fst (linuxspi_program_enable w pgm p) = - 2 \<and> tries + 1 < 65"
  then show "enable_loop tries w pgm p =
      enable_loop (tries + 1) (snd (linuxspi_program_enable w pgm p)) pgm p"
    by (subst enable_loop.simps) (simp add: case_prod_beta)
next
  show "fst (linuxspi_program_enable w pgm p) = - 1 \<longleftrightarrow> op p AVR_OP_PGM_ENABLE = None"
  proof (cases "op p AVR_OP_PGM_ENABLE")
    case None
    then show ?thesis by (simp add: program_enable_None)
  next
    case (Some t)
    then show ?thesis by (simp add: program_enable_Some)
  qed
next
  fix t assume "op p AVR_OP_PGM_ENABLE = Some t"
  then show "fst (linuxspi_program_enable w pgm p) =
      (if fst (snd (linuxspi_cmd w pgm (build t) (uninit4 w))) ! 2 = build t ! 1
       then 0 else - 2)"
    by (simp add: program_enable_Some cmd_reply)
next
  assume h: "op p AVR_OP_PGM_ENABLE = None \<and> flags p AND has_tpi = 0"
  then show l: "enable_loop 0 w pgm p = (- 1, 0, emit w (EnableNotDefined (desc p)))"
    by (simp add: loop_None)
  from h show i: "linuxspi_initialize has_tpi w pgm p =
      (- 1, w\<lparr>trace := trace w @ [Stderr (EnableNotDefined (desc p)),
                                    Stderr DeviceNotResponding]\<rparr>)"
    by (simp add: linuxspi_initialize_def l emit_def)
  show "xfers (snd (linuxspi_initialize has_tpi w pgm p)) = xfers w"
    by (simp add: i)
next
  show "fst (linuxspi_initialize has_tpi w pgm p) = 0
      \<or> fst (linuxspi_initialize has_tpi w pgm p) = - 1"
    by (simp add: linuxspi_initialize_def case_prod_beta)
qed

theorem enable_ignores_transport_status_witness:
  "linuxspi_initialize 0x800 w_echo pgm0 part_bare =
     (- 1, w_echo\<lparr>trace := [Stderr (EnableNotDefined ''bare''), Stderr DeviceNotResponding]\<rparr>)
   \<and> fst (linuxspi_program_enable w_short pgm0 part_P) = - 2
   \<and> fst (linuxspi_program_enable w_echo pgm0 part_bare) = - 1
   \<and> enable_loop 0 w_echo pgm0 part_P =
       (0, 0, w_echo\<lparr>trace := [Duplex ''/dev/spidev0.0'' [0xAC, 0x53, 0, 0] 4]\<rparr>)
   \<and> enable_loop 0 w_silent pgm0 part_P =
       enable_loop 1 (w_silent\<lparr>trace := [Duplex ''/dev/spidev0.0'' [0xAC, 0x53, 0, 0] 4]\<rparr>)
         pgm0 part_P"
proof -
  have pe: "linuxspi_program_enable w_echo pgm0 part_P =
      (0, w_echo\<lparr>trace := [Duplex ''/dev/spidev0.0'' [0xAC, 0x53, 0, 0] 4]\<rparr>)"
    using enable_attempt_answered [of w_echo "[0, 0x53, 0x53, 0]"] by (simp add: w_echo_def)
  have ps: "linuxspi_program_enable w_silent pgm0 part_P =
      (- 2, w_silent\<lparr>trace := [Duplex ''/dev/spidev0.0'' [0xAC, 0x53, 0, 0] 4]\<rparr>)"
    using enable_attempt_answered [of w_silent "[0, 0, 0, 0]"] by (simp add: w_silent_def)
  have n: "op part_bare AVR_OP_PGM_ENABLE = None \<and> flags part_bare AND 0x800 = 0"
    by (simp add: part_bare_def)
  have t: "op part_P AVR_OP_PGM_ENABLE = Some enable_AC53" by simp
  have c: "fst (snd (linuxspi_cmd w_short pgm0 (build enable_AC53) (uninit4 w_short))) =
      [0, 0, 0, 0]"
    by (simp add: cmd_reply) (simp add: reply_def store_def w_short_def)
  note th = enable_ignores_transport_status
  from th [of w_echo pgm0 part_bare "0x800" 0] n
  have 1: "linuxspi_initialize 0x800 w_echo pgm0 part_bare =
      (- 1, w_echo\<lparr>trace := [Stderr (EnableNotDefined ''bare''), Stderr DeviceNotResponding]\<rparr>)"
    and 3: "fst (linuxspi_program_enable w_echo pgm0 part_bare) = - 1"
    by (simp_all add: part_bare_def)
  from th [of w_short pgm0 part_P, THEN conjunct2, THEN conjunct1] t c
  have 2: "fst (linuxspi_program_enable w_short pgm0 part_P) = - 2"
    by (simp add: build_enable_AC53)
  from th [of w_echo pgm0 part_P _ 0] pe
  have 4: "enable_loop 0 w_echo pgm0 part_P =
      (0, 0, w_echo\<lparr>trace := [Duplex ''/dev/spidev0.0'' [0xAC, 0x53, 0, 0] 4]\<rparr>)"
    by simp
  from th [of w_silent pgm0 part_P _ 0] ps
  have 5: "enable_loop 0 w_silent pgm0 part_P =
      enable_loop 1 (w_silent\<lparr>trace := [Duplex ''/dev/spidev0.0'' [0xAC, 0x53, 0, 0] 4]\<rparr>)
        pgm0 part_P"
    by simp
  from 1 2 3 4 5 show ?thesis by simp
qed

text \<open>
  Claim C1, as the spec has it, fails. In \<open>w_fault\<close> the first exchange of the
  handshake reports a transport failure (three bytes instead of four), yet the loop
  goes on to a second attempt and \<^verbatim>\<open>linuxspi_initialize\<close> returns 0. In \<open>w_dead\<close>
  the device node never opens: the handshake still makes 65 duplex calls, and it
  returns \<open>-1\<close>, the value it returns in \<open>w_silent\<close> after 65 mismatching echoes.
\<close>

theorem transport_failure_is_retried:
  "fst (linuxspi_cmd w_fault pgm0 (build enable_AC53) (uninit4 w_fault)) = - 1
   \<and> linuxspi_initialize 0x800 w_fault pgm0 part_P =
       (0, w_fault\<lparr>trace := [Duplex ''/dev/spidev0.0'' [0xAC, 0x53, 0, 0] 4,
                               Stderr UnableToSendMessage,
                               Duplex ''/dev/spidev0.0'' [0xAC, 0x53, 0, 0] 4]\<rparr>)
   \<and> fst (linuxspi_initialize 0x800 w_dead pgm0 part_P) = - 1
   \<and> xfers (snd (linuxspi_initialize 0x800 w_dead pgm0 part_P)) = 65
   \<and> fst (linuxspi_initialize 0x800 w_silent pgm0 part_P) = - 1"
proof -
  have t: "op part_P AVR_OP_PGM_ENABLE = Some enable_AC53" and f: "flags part_P AND 0x800 = 0"
    by simp_all
  let ?w1 = "w_fault\<lparr>trace := [Duplex ''/dev/spidev0.0'' [0xAC, 0x53, 0, 0] 4,
                               Stderr UnableToSendMessage]\<rparr>"
  have o: "spidev w_fault (xfers w_fault) = Ioctl 3 [0, 0, 0]"
    by simp (simp add: w_fault_def)
  have c: "linuxspi_cmd w_fault pgm0 (build enable_AC53) (uninit4 w_fault) =
      (- 1, store [0, 0, 0] (uninit4 w_fault), ?w1)"
    by (simp add: linuxspi_cmd_def duplex_short [OF o] pgm0_def build_enable_AC53)
  then have 1: "fst (linuxspi_cmd w_fault pgm0 (build enable_AC53) (uninit4 w_fault)) = - 1"
    by simp
  have r0: "reply w_fault 0 = [0, 0, 0, 0x53]"
    by (simp add: reply_def w_fault_def store_def)
  have r1: "reply w_fault (Suc 0) = [0, 0x53, 0x53, 0]"
    by (simp add: reply_def w_fault_def store_def)
  have a1: "snd (linuxspi_program_enable w_fault pgm0 part_P) = ?w1"
    by (simp add: program_enable_Some [OF t] c)
  have "spidev ?w1 (xfers ?w1) = Ioctl 4 [0, 0x53, 0x53, 0]"
    by (simp add: xfers_def) (simp add: w_fault_def)
  then have a2: "snd (linuxspi_program_enable ?w1 pgm0 part_P) =
      ?w1\<lparr>trace := trace ?w1 @ [Duplex (port pgm0) (build enable_AC53) 4]\<rparr>"
    by (rule program_enable_full [OF t])
  have "enable_loop 0 w_fault pgm0 part_P = (0, 1, attempts (Suc 1) w_fault pgm0 part_P)"
    by (rule loop_success [OF t]) (simp_all add: r0 r1 build_enable_AC53)
  then have "enable_loop 0 w_fault pgm0 part_P =
      (0, 1, ?w1\<lparr>trace := trace ?w1 @ [Duplex (port pgm0) (build enable_AC53) 4]\<rparr>)"
    by (simp add: a1 a2)
  then have 2: "linuxspi_initialize 0x800 w_fault pgm0 part_P =
      (0, w_fault\<lparr>trace := [Duplex ''/dev/spidev0.0'' [0xAC, 0x53, 0, 0] 4,
                              Stderr UnableToSendMessage,
                              Duplex ''/dev/spidev0.0'' [0xAC, 0x53, 0, 0] 4]\<rparr>)"
    by (simp add: linuxspi_initialize_def build_enable_AC53 pgm0_def)
  have "\<forall>i<65. reply w_dead (xfers w_dead + i) ! 2 \<noteq> build enable_AC53 ! 1"
    by (simp add: reply_def w_dead_def build_enable_AC53)
  then have "enable_loop 0 w_dead pgm0 part_P = (- 2, 65, attempts 65 w_dead pgm0 part_P)"
    by (rule loop_exhaust [OF t])
  then have d: "linuxspi_initialize 0x800 w_dead pgm0 part_P =
      (- 1, emit (attempts 65 w_dead pgm0 part_P) DeviceNotResponding)"
    by (simp add: linuxspi_initialize_def)
  then have 3: "fst (linuxspi_initialize 0x800 w_dead pgm0 part_P) = - 1"
    by simp
  have 4: "xfers (snd (linuxspi_initialize 0x800 w_dead pgm0 part_P)) = 65"
    by (simp add: d attempts_xfers [OF t])
  have "\<forall>i<65. spidev w_silent (xfers w_silent + i) = Ioctl 4 [0, 0, 0, 0]
      \<and> length [0, 0, 0, 0 :: byte] = 4 \<and> [0, 0, 0, 0] ! 2 \<noteq> build enable_AC53 ! 1"
    by (simp add: w_silent_def build_enable_AC53)
  from init_exhaust_full(2) [OF t f this, of pgm0]
  have 5: "fst (linuxspi_initialize 0x800 w_silent pgm0 part_P) = - 1"
    by simp
  from 1 2 3 4 5 show ?thesis by simp
qed

end
